theory Spec2Isabelle
  imports Main "HOL-Library.AList" "HOL-Library.Multiset"
begin

section \<open>Values and documents\<close>

text \<open>
  The service moves Python dictionaries between three places: the parsed JSON body of a
  request, the BSON documents of the collection, and the JSON body of a response. One
  value type covers the three. A dictionary is an association list read with
  \<open>map_of\<close>; \<open>VOid\<close> is a database-assigned identifier (an ObjectId).
\<close>

datatype val =
    VNone
  | VStr string
  | VInt int
  | VList "val list"
  | VOid nat
  | VDict "(string \<times> val) list"

type_synonym doc = "(string \<times> val) list"

section \<open>models.py: the entity schema\<close>

datatype Gender = male | female

datatype Role = admin | user | student | teacher

record User =
  first_name :: string
  last_name :: string
  middle_name :: "string option"
  gender :: Gender
  email_address :: string
  phone_number :: string
  roles :: "Role list"

text \<open>The value of an enumeration member (\<open>male="male"\<close>, ...).\<close>

fun Gender_value :: "Gender \<Rightarrow> string" where
  "Gender_value male = ''male''"
| "Gender_value female = ''female''"

fun Role_value :: "Role \<Rightarrow> string" where
  "Role_value admin = ''admin''"
| "Role_value user = ''user''"
| "Role_value student = ''student''"
| "Role_value teacher = ''teacher''"

text \<open>
  Validation of one enumeration field: the input has to be the value of a declared member;
  everything else is rejected, nothing is coerced.
\<close>

definition Gender_validate :: "val \<Rightarrow> Gender option" where
  "Gender_validate v =
     (if v = VStr ''male'' then Some male
      else if v = VStr ''female'' then Some female
      else None)"

definition Role_validate :: "val \<Rightarrow> Role option" where
  "Role_validate v =
     (if v = VStr ''admin'' then Some admin
      else if v = VStr ''user'' then Some user
      else if v = VStr ''student'' then Some student
      else if v = VStr ''teacher'' then Some teacher
      else None)"

fun Roles_validate :: "val list \<Rightarrow> Role list option" where
  "Roles_validate [] = Some []"
| "Roles_validate (v # vs) =
     (case Role_validate v of
        None \<Rightarrow> None
      | Some r \<Rightarrow> (case Roles_validate vs of None \<Rightarrow> None | Some rs \<Rightarrow> Some (r # rs)))"

text \<open>
  The field validators of \<open>User\<close>. The outer \<open>None\<close> is a validation failure of that
  field. \<open>str\<close> is required and has to be a string; \<open>Optional[str] = None\<close> may be
  absent or null; \<open>Gender\<close> and \<open>List[Role]\<close> are required.
\<close>

definition str_field :: "doc \<Rightarrow> string \<Rightarrow> string option" where
  "str_field d k = (case map_of d k of Some (VStr s) \<Rightarrow> Some s | _ \<Rightarrow> None)"

definition optional_str_field :: "doc \<Rightarrow> string \<Rightarrow> string option option" where
  "optional_str_field d k =
     (case map_of d k of
        None \<Rightarrow> Some None
      | Some VNone \<Rightarrow> Some None
      | Some (VStr s) \<Rightarrow> Some (Some s)
      | _ \<Rightarrow> None)"

definition gender_field :: "doc \<Rightarrow> Gender option" where
  "gender_field d = (case map_of d ''gender'' of None \<Rightarrow> None | Some v \<Rightarrow> Gender_validate v)"

definition roles_field :: "doc \<Rightarrow> Role list option" where
  "roles_field d = (case map_of d ''roles'' of Some (VList vs) \<Rightarrow> Roles_validate vs | _ \<Rightarrow> None)"

text \<open>The fields of \<open>User\<close> that fail on an input, in declaration order.\<close>

definition field_error :: "string \<Rightarrow> 'a option \<Rightarrow> string list" where
  "field_error k validated = (case validated of None \<Rightarrow> [k] | Some x \<Rightarrow> [])"

definition User_errors :: "doc \<Rightarrow> string list" where
  "User_errors d =
     field_error ''first_name'' (str_field d ''first_name'') @
     field_error ''last_name'' (str_field d ''last_name'') @
     field_error ''middle_name'' (optional_str_field d ''middle_name'') @
     field_error ''gender'' (gender_field d) @
     field_error ''email_address'' (str_field d ''email_address'') @
     field_error ''phone_number'' (str_field d ''phone_number'') @
     field_error ''roles'' (roles_field d)"

text \<open>
  \<open>User\<close> built from a dictionary: either the validated model or the offending fields
  (each validation error is represented by the field it is located at). Keys that are
  not fields of the model are ignored.
\<close>

definition User_validate :: "doc \<Rightarrow> string list + User" where
  "User_validate d =
     (case str_field d ''first_name'' of None \<Rightarrow> Inl (User_errors d) | Some fn \<Rightarrow>
      case str_field d ''last_name'' of None \<Rightarrow> Inl (User_errors d) | Some ln \<Rightarrow>
      case optional_str_field d ''middle_name'' of None \<Rightarrow> Inl (User_errors d) | Some mn \<Rightarrow>
      case gender_field d of None \<Rightarrow> Inl (User_errors d) | Some g \<Rightarrow>
      case str_field d ''email_address'' of None \<Rightarrow> Inl (User_errors d) | Some e \<Rightarrow>
      case str_field d ''phone_number'' of None \<Rightarrow> Inl (User_errors d) | Some p \<Rightarrow>
      case roles_field d of None \<Rightarrow> Inl (User_errors d) | Some rs \<Rightarrow>
        Inr \<lparr>first_name = fn, last_name = ln, middle_name = mn, gender = g,
             email_address = e, phone_number = p, roles = rs\<rparr>)"

text \<open>\<open>user.model_dump()\<close>: the dictionary of the model's fields, in declaration order.\<close>

definition model_dump :: "User \<Rightarrow> doc" where
  "model_dump u =
     [(''first_name'', VStr (first_name u)),
      (''last_name'', VStr (last_name u)),
      (''middle_name'', (case middle_name u of None \<Rightarrow> VNone | Some m \<Rightarrow> VStr m)),
      (''gender'', VStr (Gender_value (gender u))),
      (''email_address'', VStr (email_address u)),
      (''phone_number'', VStr (phone_number u)),
      (''roles'', VList (map (\<lambda>r. VStr (Role_value r)) (roles u)))]"

definition User_fields :: "string list" where
  "User_fields = [''first_name'', ''last_name'', ''middle_name'', ''gender'',
                  ''email_address'', ''phone_number'', ''roles'']"

section \<open>main.py: the update request\<close>

text \<open>
  \<open>class UpdateUserDTO(BaseModel): other_names: List[str] = None; age: int = None\<close>.
  A field is either unset (it keeps the default and is not in the set of fields that
  were given) or set to a value of its type; \<open>None\<close> is the unset field.
\<close>

record UpdateUserDTO =
  other_names :: "string list option"
  age :: "int option"

text \<open>\<open>user_update.model_dump(exclude_unset=True)\<close>: only the fields that were given.\<close>

definition model_dump_exclude_unset :: "UpdateUserDTO \<Rightarrow> doc" where
  "model_dump_exclude_unset p =
     (case other_names p of None \<Rightarrow> [] | Some ns \<Rightarrow> [(''other_names'', VList (map VStr ns))]) @
     (case age p of None \<Rightarrow> [] | Some a \<Rightarrow> [(''age'', VInt a)])"

section \<open>The persistence gateway\<close>

text \<open>
  \<open>app.mongodb\<close> is the database handle: a collection for every name (a collection that
  was never written is empty). \<open>gateway_log\<close> is not in the program: it records, for each
  call of a gateway operation, the collection and the operation, so that the calls of a
  handler can be counted.
\<close>

record app_state =
  mongodb :: "string \<Rightarrow> doc list"
  gateway_log :: "(string \<times> string) list"

record InsertOneResult =
  inserted_id :: val

record UpdateResult =
  matched_count :: nat
  modified_count :: nat

record DeleteResult =
  deleted_count :: nat

text \<open>A filter \<open>{k: v, ...}\<close> selects the documents that hold exactly \<open>v\<close> at \<open>k\<close>.\<close>

definition matches :: "doc \<Rightarrow> doc \<Rightarrow> bool" where
  "matches flt d = list_all (\<lambda>(k, v). map_of d k = Some v) flt"

text \<open>
  Modelled from the spec: the database driver's identifier generation, which is not part
  of the repository. A stored record carries a database-assigned identifier; the one
  assigned at insertion is carried by no document of the collection.
\<close>

definition oid_of :: "doc \<Rightarrow> nat" where
  "oid_of d = (case map_of d ''_id'' of Some (VOid n) \<Rightarrow> n | _ \<Rightarrow> 0)"

definition ObjectId :: "doc list \<Rightarrow> nat" where
  "ObjectId ds = Suc (foldr max (map oid_of ds) 0)"

text \<open>
  Modelled from the spec: the driver's \<open>insert_one\<close>, which is not part of the repository
  (4.2, insert: persists the record with its assigned identifier populated, no
  deduplication). The document handed over by the handler has no \<open>_id\<close> key.
\<close>

definition insert_one :: "string \<Rightarrow> doc \<Rightarrow> app_state \<Rightarrow> InsertOneResult \<times> app_state" where
  "insert_one c d s =
     (let oid = VOid (ObjectId (mongodb s c))
      in (\<lparr>inserted_id = oid\<rparr>,
          s\<lparr>mongodb := (mongodb s)(c := mongodb s c @ [(''_id'', oid) # d]),
            gateway_log := gateway_log s @ [(c, ''insert_one'')]\<rparr>))"

text \<open>
  Modelled from the spec: the driver's \<open>find_one\<close>, which is not part of the repository
  (4.2, findOne: exact-match lookup, a record or not found). \<open>None\<close> is Python's
  \<open>None\<close>.
\<close>

definition find_one :: "string \<Rightarrow> doc \<Rightarrow> app_state \<Rightarrow> doc option \<times> app_state" where
  "find_one c flt s =
     (find (matches flt) (mongodb s c),
      s\<lparr>gateway_log := gateway_log s @ [(c, ''find_one'')]\<rparr>)"

text \<open>
  Modelled from the spec: the driver's \<open>find().to_list(None)\<close>, which is not part of the
  repository (4.2, findAll: unbounded retrieval of every record, in the order of the
  store).
\<close>

definition find_to_list :: "string \<Rightarrow> app_state \<Rightarrow> doc list \<times> app_state" where
  "find_to_list c s = (mongodb s c, s\<lparr>gateway_log := gateway_log s @ [(c, ''find'')]\<rparr>)"

text \<open>\<open>{"$set": fields}\<close> applied to one document: each given field is written.\<close>

definition set_fields :: "doc \<Rightarrow> doc \<Rightarrow> doc" where
  "set_fields fs d = fold (\<lambda>(k, v). AList.update k v) fs d"

fun update_first :: "(doc \<Rightarrow> bool) \<Rightarrow> (doc \<Rightarrow> doc) \<Rightarrow> doc list \<Rightarrow> doc list" where
  "update_first P f [] = []"
| "update_first P f (d # ds) = (if P d then f d # ds else d # update_first P f ds)"

text \<open>
  Modelled from the spec: the driver's \<open>update_one\<close> with a \<open>$set\<close> update, which is not
  part of the repository (4.2, updateOne: applies only the fields present in the patch to
  the record found by the lookup, and returns how many records were modified, 0 or 1).
  A record whose content the update does not change is matched but not modified; a patch
  with no field changes nothing.
\<close>

definition update_one :: "string \<Rightarrow> doc \<Rightarrow> doc \<Rightarrow> app_state \<Rightarrow> UpdateResult \<times> app_state" where
  "update_one c flt fs s =
     (let ds = mongodb s c;
          res = (case find (matches flt) ds of
                   None \<Rightarrow> \<lparr>matched_count = 0, modified_count = 0\<rparr>
                 | Some d \<Rightarrow>
                     \<lparr>matched_count = 1,
                      modified_count = (if set_fields fs d = d then 0 else 1)\<rparr>)
      in (res,
          s\<lparr>mongodb := (mongodb s)(c := update_first (matches flt) (set_fields fs) ds),
            gateway_log := gateway_log s @ [(c, ''update_one'')]\<rparr>))"

fun delete_first :: "(doc \<Rightarrow> bool) \<Rightarrow> doc list \<Rightarrow> doc list" where
  "delete_first P [] = []"
| "delete_first P (d # ds) = (if P d then ds else d # delete_first P ds)"

text \<open>
  Modelled from the spec: the driver's \<open>delete_one\<close>, which is not part of the repository
  (4.2, deleteOne: removes the matching record, returns 0 or 1).
\<close>

definition delete_one :: "string \<Rightarrow> doc \<Rightarrow> app_state \<Rightarrow> DeleteResult \<times> app_state" where
  "delete_one c flt s =
     (let ds = mongodb s c
      in (\<lparr>deleted_count = (case find (matches flt) ds of None \<Rightarrow> 0 | Some d \<Rightarrow> 1)\<rparr>,
          s\<lparr>mongodb := (mongodb s)(c := delete_first (matches flt) ds),
            gateway_log := gateway_log s @ [(c, ''delete_one'')]\<rparr>))"

section \<open>main.py: the request handlers\<close>

text \<open>
  What a handler returns (a Python value) or raises. \<open>PyUpdateResult\<close> is the driver's
  result object of an update.
\<close>

datatype py =
    PyNone
  | PyDict doc
  | PyList "doc list"
  | PyUpdateResult UpdateResult

datatype exn = HTTPException nat string

definition insert_user :: "User \<Rightarrow> app_state \<Rightarrow> (exn + py) \<times> app_state" where
  "insert_user u s =
     (let (result, s1) = insert_one ''users'' (model_dump u) s;
          (inserted_user, s2) = find_one ''users'' [(''_id'', inserted_id result)] s1
      in (Inr (case inserted_user of None \<Rightarrow> PyNone | Some d \<Rightarrow> PyDict d), s2))"

definition read_users :: "app_state \<Rightarrow> (exn + py) \<times> app_state" where
  "read_users s =
     (let (users, s1) = find_to_list ''users'' s
      in (Inr (PyList users), s1))"

definition read_user_by_email :: "string \<Rightarrow> app_state \<Rightarrow> (exn + py) \<times> app_state" where
  "read_user_by_email email s =
     (let (found, s1) = find_one ''users'' [(''email_address'', VStr email)] s
      in case found of
           None \<Rightarrow> (Inl (HTTPException 404 ''User Not Found''), s1)
         | Some d \<Rightarrow> (Inr (PyDict d), s1))"

definition update_user :: "string \<Rightarrow> UpdateUserDTO \<Rightarrow> app_state \<Rightarrow> (exn + py) \<times> app_state" where
  "update_user email user_update s =
     (let (updated_result, s1) =
            update_one ''users'' [(''email_address'', VStr email)]
              (model_dump_exclude_unset user_update) s
      in if modified_count updated_result = 0
         then (Inl (HTTPException 404 ''User not found or no update needed''), s1)
         else (let (updated_user, s2) = find_one ''users'' [(''email_address'', VStr email)] s1
               in (Inr (PyUpdateResult updated_result), s2)))"

definition delete_user_by_email :: "string \<Rightarrow> app_state \<Rightarrow> (exn + py) \<times> app_state" where
  "delete_user_by_email email s =
     (let (delete_result, s1) = delete_one ''users'' [(''email_address'', VStr email)] s
      in if deleted_count delete_result = 0
         then (Inl (HTTPException 404 ''User Not Found''), s1)
         else (Inr (PyDict [(''message'', VStr ''User deleted Successfully'')]), s1))"

section \<open>main.py: the routes\<close>

text \<open>
  A route is its handler between the framework's two steps. Before the handler, the body
  of the request is validated against the parameter's model, and a body that fails is
  answered with 422 without the handler being called. After the handler, an
  \<open>HTTPException\<close> becomes a response with its status and \<open>{"detail": ...}\<close>, and a
  returned value is validated against the route's \<open>response_model\<close> and serialised as
  that model, so that the body holds the model's fields and nothing else; a value that is
  not of the model is a server error.
\<close>

datatype response = Response (status_code: nat) (body: val)

definition validation_error_response :: "string list \<Rightarrow> response" where
  "validation_error_response errs = Response 422 (VDict [(''detail'', VList (map VStr errs))])"

definition internal_server_error :: response where
  "internal_server_error = Response 500 (VStr ''Internal Server Error'')"

fun http_exception_response :: "exn \<Rightarrow> response" where
  "http_exception_response (HTTPException c detail) = Response c (VDict [(''detail'', VStr detail)])"

fun response_model_User :: "py \<Rightarrow> response" where
  "response_model_User (PyDict d) =
     (case User_validate d of
        Inl errs \<Rightarrow> internal_server_error
      | Inr u \<Rightarrow> Response 200 (VDict (model_dump u)))"
| "response_model_User v = internal_server_error"

fun Users_validate :: "doc list \<Rightarrow> User list option" where
  "Users_validate [] = Some []"
| "Users_validate (d # ds) =
     (case User_validate d of
        Inl errs \<Rightarrow> None
      | Inr u \<Rightarrow> (case Users_validate ds of None \<Rightarrow> None | Some us \<Rightarrow> Some (u # us)))"

fun response_model_List_User :: "py \<Rightarrow> response" where
  "response_model_List_User (PyList ds) =
     (case Users_validate ds of
        None \<Rightarrow> internal_server_error
      | Some us \<Rightarrow> Response 200 (VList (map (\<lambda>u. VDict (model_dump u)) us)))"
| "response_model_List_User v = internal_server_error"

fun response_model_dict :: "py \<Rightarrow> response" where
  "response_model_dict (PyDict d) = Response 200 (VDict d)"
| "response_model_dict v = internal_server_error"

definition respond :: "(py \<Rightarrow> response) \<Rightarrow> (exn + py) \<times> app_state \<Rightarrow> response \<times> app_state" where
  "respond response_model r =
     (case fst r of
        Inl e \<Rightarrow> (http_exception_response e, snd r)
      | Inr v \<Rightarrow> (response_model v, snd r))"

text \<open>\<open>@app.post("/api/v1/create-user", response_model=User)\<close>, body: \<open>User\<close>.\<close>

definition POST_create_user :: "doc \<Rightarrow> app_state \<Rightarrow> response \<times> app_state" where
  "POST_create_user request_body s =
     (case User_validate request_body of
        Inl errs \<Rightarrow> (validation_error_response errs, s)
      | Inr u \<Rightarrow> respond response_model_User (insert_user u s))"

text \<open>\<open>@app.get("/api/v1/read-all-users", response_model=List[User])\<close>.\<close>

definition GET_read_all_users :: "app_state \<Rightarrow> response \<times> app_state" where
  "GET_read_all_users s = respond response_model_List_User (read_users s)"

text \<open>
  The path parameter \<open>{email_address}\<close> of a route takes one segment of the request's
  path: the route matches when the segment is not empty and has no \<open>/\<close> in it, and
  the segment is the handler's argument. A request that no route matches is answered by the
  router with 404 and \<open>{"detail": "Not Found"}\<close>, and no handler is called. The three
  routes below take the segment that follows their fixed prefix.
\<close>

definition path_param :: "string \<Rightarrow> bool" where
  "path_param segment = (segment \<noteq> [] \<and> CHR ''/'' \<notin> set segment)"

definition not_found_response :: response where
  "not_found_response = Response 404 (VDict [(''detail'', VStr ''Not Found'')])"

text \<open>\<open>@app.get("/api/v1/read-user/{email_address}", response_model=User)\<close>.\<close>

definition GET_read_user :: "string \<Rightarrow> app_state \<Rightarrow> response \<times> app_state" where
  "GET_read_user email s =
     (if path_param email
      then respond response_model_User (read_user_by_email email s)
      else (not_found_response, s))"

text \<open>
  \<open>@app.put("/api/v1/update-user/{email_address}", response_model=User)\<close>. The patch is
  the validated \<open>UpdateUserDTO\<close>.
\<close>

definition PUT_update_user :: "string \<Rightarrow> UpdateUserDTO \<Rightarrow> app_state \<Rightarrow> response \<times> app_state" where
  "PUT_update_user email user_update s =
     (if path_param email
      then respond response_model_User (update_user email user_update s)
      else (not_found_response, s))"

text \<open>\<open>@app.delete("/api/v1/delete-user/{email_address}", response_model=dict)\<close>.\<close>

definition DELETE_delete_user :: "string \<Rightarrow> app_state \<Rightarrow> response \<times> app_state" where
  "DELETE_delete_user email s =
     (if path_param email
      then respond response_model_dict (delete_user_by_email email s)
      else (not_found_response, s))"

text \<open>The calls of the gateway that a run added to the log.\<close>

definition new_calls :: "app_state \<Rightarrow> app_state \<Rightarrow> (string \<times> string) list" where
  "new_calls s s' = drop (length (gateway_log s)) (gateway_log s')"

text \<open>The value of a field in the body of a response that is a JSON object.\<close>

definition body_field :: "response \<Rightarrow> string \<Rightarrow> val option" where
  "body_field r k = (case body r of VDict d \<Rightarrow> map_of d k | _ \<Rightarrow> None)"

section \<open>Concrete inputs\<close>

text \<open>The service before any request, and the payload of the specification's scenario.\<close>

definition empty_app :: app_state where
  "empty_app = \<lparr>mongodb = (\<lambda>c. []), gateway_log = []\<rparr>"

definition ann_lee :: doc where
  "ann_lee =
     [(''first_name'', VStr ''Ann''), (''last_name'', VStr ''Lee''),
      (''gender'', VStr ''female''), (''email_address'', VStr ''ann@x.com''),
      (''phone_number'', VStr ''555''), (''roles'', VList [VStr ''student''])]"

definition ann_lee_user :: User where
  "ann_lee_user =
     \<lparr>first_name = ''Ann'', last_name = ''Lee'', middle_name = None, gender = female,
      email_address = ''ann@x.com'', phone_number = ''555'', roles = [student]\<rparr>"

text \<open>A second payload with the same email address.\<close>

definition bob_ray :: doc where
  "bob_ray =
     [(''first_name'', VStr ''Bob''), (''last_name'', VStr ''Ray''),
      (''gender'', VStr ''male''), (''email_address'', VStr ''ann@x.com''),
      (''phone_number'', VStr ''777''), (''roles'', VList [VStr ''teacher''])]"

text \<open>The scenario's payload with a gender outside the enumeration.\<close>

definition ann_other_gender :: doc where
  "ann_other_gender = AList.update ''gender'' (VStr ''other'') ann_lee"

text \<open>The service after the scenario's create, and a patch that sets the age only.\<close>

definition ann_stored :: app_state where
  "ann_stored = snd (POST_create_user ann_lee empty_app)"

definition age_30 :: UpdateUserDTO where
  "age_30 = \<lparr>other_names = None, age = Some 30\<rparr>"

text \<open>The service after the scenario's create and an update of the age to 30.\<close>

definition ann_aged :: app_state where
  "ann_aged = snd (PUT_update_user ''ann@x.com'' age_30 ann_stored)"

definition bob_ray_user :: User where
  "bob_ray_user =
     \<lparr>first_name = ''Bob'', last_name = ''Ray'', middle_name = None, gender = male,
      email_address = ''ann@x.com'', phone_number = ''777'', roles = [teacher]\<rparr>"

text \<open>The service after the second payload was created on the empty service.\<close>

definition bob_stored :: app_state where
  "bob_stored = snd (POST_create_user bob_ray empty_app)"

text \<open>The service after the scenario's payload was created twice.\<close>

definition two_anns :: app_state where
  "two_anns = snd (POST_create_user ann_lee ann_stored)"

text \<open>A third payload, with an email address of its own.\<close>

definition cy_poe :: doc where
  "cy_poe =
     [(''first_name'', VStr ''Cy''), (''last_name'', VStr ''Poe''), (''middle_name'', VStr ''M''),
      (''gender'', VStr ''male''), (''email_address'', VStr ''cy@x.com''),
      (''phone_number'', VStr ''999''), (''roles'', VList [VStr ''admin'', VStr ''user''])]"

definition cy_poe_user :: User where
  "cy_poe_user =
     \<lparr>first_name = ''Cy'', last_name = ''Poe'', middle_name = Some ''M'', gender = male,
      email_address = ''cy@x.com'', phone_number = ''999'', roles = [admin, user]\<rparr>"

text \<open>A run of the create route on one payload after the other.\<close>

definition create_all :: "doc list \<Rightarrow> app_state \<Rightarrow> app_state" where
  "create_all request_bodies s = fold (\<lambda>b s'. snd (POST_create_user b s')) request_bodies s"

text \<open>The service after the scenario's payload and the third payload were created.\<close>

definition ann_cy_stored :: app_state where
  "ann_cy_stored = create_all [ann_lee, cy_poe] empty_app"

text \<open>
  A store with two records of one email address, holding the ages 1 and 2, and a patch that
  sets the age to 2.
\<close>

definition two_ages :: app_state where
  "two_ages =
     \<lparr>mongodb = (\<lambda>c. [])(''users'' :=
        [(''_id'', VOid 1) # model_dump ann_lee_user @ [(''age'', VInt 1)],
         (''_id'', VOid 2) # model_dump ann_lee_user @ [(''age'', VInt 2)]]),
      gateway_log = []\<rparr>"

definition age_2 :: UpdateUserDTO where
  "age_2 = \<lparr>other_names = None, age = Some 2\<rparr>"

section \<open>Validation and serialisation\<close>

lemma Gender_validate_value: "Gender_validate (VStr (Gender_value g)) = Some g"
  by (cases g) (simp_all add: Gender_validate_def)

lemma Role_validate_value: "Role_validate (VStr (Role_value r)) = Some r"
  by (cases r) (simp_all add: Role_validate_def)

lemma Roles_validate_values: "Roles_validate (map (\<lambda>r. VStr (Role_value r)) rs) = Some rs"
  by (induction rs) (simp_all add: Role_validate_value)

lemma User_validate_model_dump: "User_validate (model_dump u) = Inr u"
  by (cases "middle_name u")
     (simp_all add: User_validate_def model_dump_def str_field_def optional_str_field_def
        gender_field_def roles_field_def Gender_validate_value Roles_validate_values)

lemma User_validate_stored: "User_validate ((''_id'', x) # model_dump u) = Inr u"
  by (cases "middle_name u")
     (simp_all add: User_validate_def model_dump_def str_field_def optional_str_field_def
        gender_field_def roles_field_def Gender_validate_value Roles_validate_values)

lemma Gender_validate_Some: "Gender_validate v = Some g \<Longrightarrow> v = VStr (Gender_value g)"
  by (auto simp: Gender_validate_def split: if_splits)

lemma Role_validate_Some: "Role_validate v = Some r \<Longrightarrow> v = VStr (Role_value r)"
  by (auto simp: Role_validate_def split: if_splits)

lemma Roles_validate_Some:
  "Roles_validate vs = Some rs \<Longrightarrow> vs = map (\<lambda>r. VStr (Role_value r)) rs"
  by (induction vs arbitrary: rs) (auto split: option.splits dest: Role_validate_Some)

lemma str_field_Some: "str_field d k = Some s \<Longrightarrow> map_of d k = Some (VStr s)"
  by (auto simp: str_field_def split: option.splits val.splits)

lemma optional_str_field_Some:
  "optional_str_field d k = Some m \<Longrightarrow> map_of d k = Some v \<Longrightarrow>
     v = (case m of None \<Rightarrow> VNone | Some x \<Rightarrow> VStr x)"
  by (cases v) (auto simp: optional_str_field_def)

lemma User_validate_Inr_iff:
  "User_validate d = Inr u \<longleftrightarrow>
     str_field d ''first_name'' = Some (first_name u) \<and>
     str_field d ''last_name'' = Some (last_name u) \<and>
     optional_str_field d ''middle_name'' = Some (middle_name u) \<and>
     gender_field d = Some (gender u) \<and>
     str_field d ''email_address'' = Some (email_address u) \<and>
     str_field d ''phone_number'' = Some (phone_number u) \<and>
     roles_field d = Some (roles u)"
  by (cases u) (simp add: User_validate_def split: option.split)

lemma gender_field_Some:
  "gender_field d = Some g \<Longrightarrow> map_of d ''gender'' = Some (VStr (Gender_value g))"
  by (cases "map_of d ''gender''") (auto simp: gender_field_def dest: Gender_validate_Some)

lemma roles_field_Some:
  "roles_field d = Some rs \<Longrightarrow>
     map_of d ''roles'' = Some (VList (map (\<lambda>r. VStr (Role_value r)) rs))"
proof (cases "map_of d ''roles''")
  case None
  assume "roles_field d = Some rs"
  with None show ?thesis by (simp add: roles_field_def)
next
  case (Some v)
  assume a: "roles_field d = Some rs"
  show ?thesis
  proof (cases v)
    case (VList vs)
    with a Some have "Roles_validate vs = Some rs" by (simp add: roles_field_def)
    from Roles_validate_Some[OF this] Some VList show ?thesis by simp
  qed (use a Some in \<open>simp_all add: roles_field_def\<close>)
qed

lemma User_fields_cases:
  "k \<in> set User_fields \<Longrightarrow>
     k = ''first_name'' \<or> k = ''last_name'' \<or> k = ''middle_name'' \<or> k = ''gender'' \<or>
     k = ''email_address'' \<or> k = ''phone_number'' \<or> k = ''roles''"
  by (simp add: User_fields_def)

lemma model_dump_of_validated:
  assumes "User_validate d = Inr u" and "k \<in> set User_fields" and "map_of d k = Some v"
  shows "map_of (model_dump u) k = Some v"
proof -
  note f = assms(1)[unfolded User_validate_Inr_iff]
  from User_fields_cases[OF assms(2)] show ?thesis
  proof (elim disjE)
    assume "k = ''first_name''"
    with f assms(3) str_field_Some[of d "''first_name''" "first_name u"] show ?thesis
      by (simp add: model_dump_def)
  next
    assume "k = ''last_name''"
    with f assms(3) str_field_Some[of d "''last_name''" "last_name u"] show ?thesis
      by (simp add: model_dump_def)
  next
    assume "k = ''middle_name''"
    with f assms(3) optional_str_field_Some[of d "''middle_name''" "middle_name u" v]
    show ?thesis by (simp add: model_dump_def)
  next
    assume "k = ''gender''"
    with f assms(3) gender_field_Some[of d "gender u"] show ?thesis
      by (simp add: model_dump_def)
  next
    assume "k = ''email_address''"
    with f assms(3) str_field_Some[of d "''email_address''" "email_address u"] show ?thesis
      by (simp add: model_dump_def)
  next
    assume "k = ''phone_number''"
    with f assms(3) str_field_Some[of d "''phone_number''" "phone_number u"] show ?thesis
      by (simp add: model_dump_def)
  next
    assume "k = ''roles''"
    with f assms(3) roles_field_Some[of d "roles u"] show ?thesis
      by (simp add: model_dump_def)
  qed
qed

lemma oid_of_le_foldr: "d \<in> set ds \<Longrightarrow> oid_of d \<le> foldr max (map oid_of ds) 0"
  by (induction ds) auto

lemma ObjectId_fresh: "d \<in> set ds \<Longrightarrow> map_of d ''_id'' \<noteq> Some (VOid (ObjectId ds))"
proof
  assume d: "d \<in> set ds" and "map_of d ''_id'' = Some (VOid (ObjectId ds))"
  then have "oid_of d = ObjectId ds" by (simp add: oid_of_def)
  with oid_of_le_foldr[OF d] show False by (simp add: ObjectId_def)
qed

lemma find_append_last:
  "find P (xs @ [x]) = (case find P xs of Some y \<Rightarrow> Some y | None \<Rightarrow> if P x then Some x else None)"
  by (induction xs) auto

lemma find_None_iff_all: "find P xs = None \<longleftrightarrow> (\<forall>x\<in>set xs. \<not> P x)"
  by (induction xs) auto

lemma matches_single: "matches [(k, v)] d \<longleftrightarrow> map_of d k = Some v"
  by (simp add: matches_def)

lemma find_by_email_middle:
  assumes "\<forall>x \<in> set xs. map_of x ''email_address'' \<noteq> Some (VStr email)"
    and "map_of d ''email_address'' = Some (VStr email)"
  shows "find (matches [(''email_address'', VStr email)]) (xs @ d # ys) = Some d"
  using assms by (induction xs) (simp_all add: matches_single)

lemma delete_first_by_email_middle:
  assumes "\<forall>x \<in> set xs. map_of x ''email_address'' \<noteq> Some (VStr email)"
    and "map_of d ''email_address'' = Some (VStr email)"
  shows "delete_first (matches [(''email_address'', VStr email)]) (xs @ d # ys) = xs @ ys"
  using assms by (induction xs) (simp_all add: matches_single)

lemma insert_user_run:
  "insert_user u s =
     (Inr (PyDict ((''_id'', VOid (ObjectId (mongodb s ''users''))) # model_dump u)),
      s\<lparr>mongodb := (mongodb s)(''users'' := mongodb s ''users'' @
                      [(''_id'', VOid (ObjectId (mongodb s ''users''))) # model_dump u]),
        gateway_log := gateway_log s @ [(''users'', ''insert_one''), (''users'', ''find_one'')]\<rparr>)"
proof -
  have "find (matches [(''_id'', VOid (ObjectId (mongodb s ''users'')))]) (mongodb s ''users'') = None"
    by (simp add: find_None_iff_all matches_single ObjectId_fresh)
  then show ?thesis
    by (simp add: insert_user_def insert_one_def find_one_def Let_def find_append_last matches_single)
qed

lemma POST_create_user_run:
  assumes "User_validate request_body = Inr u"
  shows "POST_create_user request_body s =
     (Response 200 (VDict (model_dump u)),
      s\<lparr>mongodb := (mongodb s)(''users'' := mongodb s ''users'' @
                      [(''_id'', VOid (ObjectId (mongodb s ''users''))) # model_dump u]),
        gateway_log := gateway_log s @ [(''users'', ''insert_one''), (''users'', ''find_one'')]\<rparr>)"
  by (simp add: POST_create_user_def assms insert_user_run respond_def User_validate_stored)

lemma ann_lee_valid: "User_validate ann_lee = Inr ann_lee_user"
  by (simp add: User_validate_Inr_iff ann_lee_def ann_lee_user_def str_field_def
        optional_str_field_def gender_field_def roles_field_def Gender_validate_def
        Role_validate_def)

section \<open>Gateway calls of the handlers\<close>

text \<open>
  C3, as the code has it. The claim is that every handler performs at most one gateway
  operation and touches only the collection \<open>users\<close>. All calls are on \<open>users\<close>, but
  the count holds for three handlers only: listing, reading by email and deleting make
  exactly one call; creating makes two (\<open>insert_one\<close>, then \<open>find_one\<close> by the new
  identifier); updating makes one call when no record was modified and two
  (\<open>update_one\<close>, then \<open>find_one\<close>) otherwise.
\<close>

theorem handlers_gateway_calls:
  "new_calls s (snd (insert_user u s)) = [(''users'', ''insert_one''), (''users'', ''find_one'')]
   \<and> new_calls s (snd (read_users s)) = [(''users'', ''find'')]
   \<and> new_calls s (snd (read_user_by_email email s)) = [(''users'', ''find_one'')]
   \<and> new_calls s (snd (update_user email p s)) =
       (if modified_count (fst (update_one ''users'' [(''email_address'', VStr email)]
              (model_dump_exclude_unset p) s)) = 0
        then [(''users'', ''update_one'')]
        else [(''users'', ''update_one''), (''users'', ''find_one'')])
   \<and> new_calls s (snd (delete_user_by_email email s)) = [(''users'', ''delete_one'')]"
proof (intro conjI)
  show "new_calls s (snd (insert_user u s)) = [(''users'', ''insert_one''), (''users'', ''find_one'')]"
    by (simp add: insert_user_run new_calls_def)
  show "new_calls s (snd (read_users s)) = [(''users'', ''find'')]"
    by (simp add: read_users_def find_to_list_def new_calls_def)
  show "new_calls s (snd (read_user_by_email email s)) = [(''users'', ''find_one'')]"
    by (simp add: read_user_by_email_def find_one_def new_calls_def split: option.split)
  show "new_calls s (snd (update_user email p s)) =
       (if modified_count (fst (update_one ''users'' [(''email_address'', VStr email)]
              (model_dump_exclude_unset p) s)) = 0
        then [(''users'', ''update_one'')]
        else [(''users'', ''update_one''), (''users'', ''find_one'')])"
    by (simp add: update_user_def update_one_def find_one_def new_calls_def Let_def
          split: option.split)
  show "new_calls s (snd (delete_user_by_email email s)) = [(''users'', ''delete_one'')]"
    by (simp add: delete_user_by_email_def delete_one_def new_calls_def Let_def
          split: option.split)
qed

text \<open>
  C3, as stated, fails: creating the scenario's user on the empty service calls the gateway
  twice.
\<close>

theorem create_makes_two_gateway_calls:
  "new_calls empty_app (snd (insert_user ann_lee_user empty_app)) =
     [(''users'', ''insert_one''), (''users'', ''find_one'')]
   \<and> length (new_calls empty_app (snd (insert_user ann_lee_user empty_app))) = 2"
  by (simp add: insert_user_run new_calls_def empty_app_def)

section \<open>Create\<close>

text \<open>
  C2, as the code has it. For every valid payload the create route answers 200, and the
  record is appended to \<open>users\<close> together with an identifier that no stored document
  carries. The handler returns the stored document, identifier included, but the route
  declares \<open>response_model=User\<close>: the body of the response is the record's \<open>User\<close>
  fields, equal to the payload on every field the payload gives, and has no identifier.
\<close>

theorem create_user_stores_and_returns_fields:
  assumes "User_validate request_body = Inr u"
  shows "fst (POST_create_user request_body s) = Response 200 (VDict (model_dump u))
    \<and> mongodb (snd (POST_create_user request_body s)) ''users'' =
        mongodb s ''users'' @ [(''_id'', VOid (ObjectId (mongodb s ''users''))) # model_dump u]
    \<and> fst (insert_user u s) =
        Inr (PyDict ((''_id'', VOid (ObjectId (mongodb s ''users''))) # model_dump u))
    \<and> (\<forall>d \<in> set (mongodb s ''users'').
          map_of d ''_id'' \<noteq> Some (VOid (ObjectId (mongodb s ''users''))))
    \<and> (\<forall>k \<in> set User_fields. \<forall>v. map_of request_body k = Some v \<longrightarrow>
          body_field (fst (POST_create_user request_body s)) k = Some v)
    \<and> body_field (fst (POST_create_user request_body s)) ''_id'' = None"
proof (intro conjI)
  show r: "fst (POST_create_user request_body s) = Response 200 (VDict (model_dump u))"
    by (simp add: POST_create_user_run[OF assms])
  show "mongodb (snd (POST_create_user request_body s)) ''users'' =
        mongodb s ''users'' @ [(''_id'', VOid (ObjectId (mongodb s ''users''))) # model_dump u]"
    by (simp add: POST_create_user_run[OF assms])
  show "fst (insert_user u s) =
        Inr (PyDict ((''_id'', VOid (ObjectId (mongodb s ''users''))) # model_dump u))"
    by (simp add: insert_user_run)
  show "\<forall>d \<in> set (mongodb s ''users'').
          map_of d ''_id'' \<noteq> Some (VOid (ObjectId (mongodb s ''users'')))"
    by (simp add: ObjectId_fresh)
  show "\<forall>k \<in> set User_fields. \<forall>v. map_of request_body k = Some v \<longrightarrow>
          body_field (fst (POST_create_user request_body s)) k = Some v"
    by (simp add: r body_field_def model_dump_of_validated[OF assms])
  show "body_field (fst (POST_create_user request_body s)) ''_id'' = None"
    by (simp add: r body_field_def model_dump_def)
qed

theorem create_user_stores_and_returns_fields_witness:
  "User_validate ann_lee = Inr ann_lee_user
   \<and> fst (POST_create_user ann_lee empty_app) = Response 200 (VDict (model_dump ann_lee_user))
   \<and> mongodb (snd (POST_create_user ann_lee empty_app)) ''users'' =
       [(''_id'', VOid 1) # model_dump ann_lee_user]"
  using create_user_stores_and_returns_fields[OF ann_lee_valid, of empty_app] ann_lee_valid
  by (simp add: empty_app_def ObjectId_def)

text \<open>
  C2, as stated, fails: the scenario's payload on the empty service is answered with 200
  and stored with the identifier 1, and the body of the response has no identifier.
\<close>

theorem create_response_has_no_identifier:
  "status_code (fst (POST_create_user ann_lee empty_app)) = 200
   \<and> body_field (fst (POST_create_user ann_lee empty_app)) ''_id'' = None
   \<and> map_of (last (mongodb (snd (POST_create_user ann_lee empty_app)) ''users'')) ''_id'' =
       Some (VOid 1)"
  by (simp add: POST_create_user_run[OF ann_lee_valid] body_field_def model_dump_def
        empty_app_def ObjectId_def)

section \<open>Validation failures\<close>

lemma Role_validate_None:
  "v \<notin> {VStr ''admin'', VStr ''user'', VStr ''student'', VStr ''teacher''} \<Longrightarrow>
     Role_validate v = None"
  by (simp add: Role_validate_def)

lemma Roles_validate_None:
  "v \<in> set vs \<Longrightarrow> Role_validate v = None \<Longrightarrow> Roles_validate vs = None"
  by (induction vs) (auto split: option.splits)

lemma Gender_validate_None:
  "v \<notin> {VStr ''male'', VStr ''female''} \<Longrightarrow> Gender_validate v = None"
  by (simp add: Gender_validate_def)

lemma gender_field_None:
  "map_of d ''gender'' \<notin> {Some (VStr ''male''), Some (VStr ''female'')} \<Longrightarrow> gender_field d = None"
  by (cases "map_of d ''gender''") (simp_all add: gender_field_def Gender_validate_def)

lemma roles_field_None:
  "map_of d ''roles'' = Some (VList vs) \<Longrightarrow> v \<in> set vs \<Longrightarrow>
   v \<notin> {VStr ''admin'', VStr ''user'', VStr ''student'', VStr ''teacher''} \<Longrightarrow>
   roles_field d = None"
  using Roles_validate_None[OF _ Role_validate_None, of v vs]
  by (simp add: roles_field_def)

lemma field_error_None: "k \<in> set (field_error k None)"
  by (simp add: field_error_def)

lemma User_validate_Inl: "User_validate d = Inl errs \<Longrightarrow> errs = User_errors d"
  by (simp add: User_validate_def split: option.splits)

lemma User_validate_gender_None:
  assumes "gender_field d = None"
  shows "User_validate d = Inl (User_errors d) \<and> ''gender'' \<in> set (User_errors d)"
proof
  show "User_validate d = Inl (User_errors d)"
  proof (cases "User_validate d")
    case (Inl errs)
    with User_validate_Inl[OF Inl] show ?thesis by simp
  next
    case (Inr u)
    with assms show ?thesis by (simp add: User_validate_Inr_iff)
  qed
  have "''gender'' \<in> set (field_error ''gender'' (gender_field d))"
    by (simp only: assms field_error_None)
  then show "''gender'' \<in> set (User_errors d)"
    by (simp only: User_errors_def set_append Un_iff simp_thms)
qed

lemma User_validate_roles_None:
  assumes "roles_field d = None"
  shows "User_validate d = Inl (User_errors d) \<and> ''roles'' \<in> set (User_errors d)"
proof
  show "User_validate d = Inl (User_errors d)"
  proof (cases "User_validate d")
    case (Inl errs)
    with User_validate_Inl[OF Inl] show ?thesis by simp
  next
    case (Inr u)
    with assms show ?thesis by (simp add: User_validate_Inr_iff)
  qed
  have "''roles'' \<in> set (field_error ''roles'' (roles_field d))"
    by (simp only: assms field_error_None)
  then show "''roles'' \<in> set (User_errors d)"
    by (simp only: User_errors_def set_append Un_iff simp_thms)
qed

text \<open>
  C4. A payload whose \<open>gender\<close> is not one of \<open>male\<close>, \<open>female\<close> (or is missing), or
  whose \<open>roles\<close> list has an element that is not one of \<open>admin\<close>, \<open>user\<close>,
  \<open>student\<close>, \<open>teacher\<close>, fails validation with that field among the errors; the
  create route answers 422 without calling the handler, and the service, its collection
  included, is as before.
\<close>

theorem invalid_enum_value_creates_no_record:
  assumes "map_of request_body ''gender'' \<notin> {Some (VStr ''male''), Some (VStr ''female'')}
         \<or> (\<exists>vs v. map_of request_body ''roles'' = Some (VList vs) \<and> v \<in> set vs \<and>
               v \<notin> {VStr ''admin'', VStr ''user'', VStr ''student'', VStr ''teacher''})"
  shows "User_validate request_body = Inl (User_errors request_body)
       \<and> (''gender'' \<in> set (User_errors request_body) \<or> ''roles'' \<in> set (User_errors request_body))
       \<and> POST_create_user request_body s =
           (validation_error_response (User_errors request_body), s)
       \<and> status_code (fst (POST_create_user request_body s)) = 422
       \<and> mongodb (snd (POST_create_user request_body s)) = mongodb s"
proof -
  from assms have "gender_field request_body = None \<or> roles_field request_body = None"
  proof
    assume "map_of request_body ''gender'' \<notin> {Some (VStr ''male''), Some (VStr ''female'')}"
    then have "gender_field request_body = None" by (rule gender_field_None)
    then show ?thesis by (rule disjI1)
  next
    assume "\<exists>vs v. map_of request_body ''roles'' = Some (VList vs) \<and> v \<in> set vs \<and>
               v \<notin> {VStr ''admin'', VStr ''user'', VStr ''student'', VStr ''teacher''}"
    then obtain vs v where "map_of request_body ''roles'' = Some (VList vs)" "v \<in> set vs"
      "v \<notin> {VStr ''admin'', VStr ''user'', VStr ''student'', VStr ''teacher''}"
      by (elim exE conjE)
    then have "roles_field request_body = None" by (rule roles_field_None)
    then show ?thesis by (rule disjI2)
  qed
  then have ve: "User_validate request_body = Inl (User_errors request_body) \<and>
    (''gender'' \<in> set (User_errors request_body) \<or> ''roles'' \<in> set (User_errors request_body))"
  proof
    assume "gender_field request_body = None"
    from User_validate_gender_None[OF this] show ?thesis
      by (intro conjI disjI1) (erule conjunct1, erule conjunct2)
  next
    assume "roles_field request_body = None"
    from User_validate_roles_None[OF this] show ?thesis
      by (intro conjI disjI2) (erule conjunct1, erule conjunct2)
  qed
  then have v: "User_validate request_body = Inl (User_errors request_body)" by (rule conjunct1)
  then have p: "POST_create_user request_body s =
           (validation_error_response (User_errors request_body), s)"
    by (simp add: POST_create_user_def)
  have "status_code (fst (POST_create_user request_body s)) = 422"
    by (simp add: p validation_error_response_def)
  moreover have "mongodb (snd (POST_create_user request_body s)) = mongodb s"
    by (simp add: p)
  ultimately show ?thesis using ve p by (intro conjI) (erule conjunct1, erule conjunct2, assumption+)
qed

theorem invalid_enum_value_creates_no_record_witness:
  "map_of ann_other_gender ''gender'' \<notin> {Some (VStr ''male''), Some (VStr ''female'')}
   \<and> POST_create_user ann_other_gender empty_app =
       (Response 422 (VDict [(''detail'', VList [VStr ''gender''])]), empty_app)"
proof -
  have h: "map_of ann_other_gender ''gender'' \<notin> {Some (VStr ''male''), Some (VStr ''female'')}"
    by (simp add: ann_other_gender_def ann_lee_def)
  have e: "User_errors ann_other_gender = [''gender'']"
    by (simp add: User_errors_def field_error_def ann_other_gender_def ann_lee_def str_field_def
          optional_str_field_def gender_field_def roles_field_def Gender_validate_def
          Role_validate_def)
  from invalid_enum_value_creates_no_record[OF disjI1, OF h, of empty_app] h e show ?thesis
    by (simp add: validation_error_response_def)
qed

section \<open>Update\<close>


lemma update_first_same: "find P ds = Some d \<Longrightarrow> f d = d \<Longrightarrow> update_first P f ds = ds"
  by (induction ds) (auto split: if_splits)

lemma length_update_first: "length (update_first P f ds) = length ds"
  by (induction ds) auto

lemma nth_update_first:
  "i < length ds \<Longrightarrow> update_first P f ds ! i = ds ! i \<or> update_first P f ds ! i = f (ds ! i)"
proof (induction ds arbitrary: i)
  case Nil
  then show ?case by simp
next
  case (Cons d ds)
  then show ?case by (cases i) auto
qed

lemma update_same: "map_of d k = Some v \<Longrightarrow> AList.update k v d = d"
  by (induction d) (auto split: if_splits)

lemma set_fields_same:
  "list_all (\<lambda>(k, v). map_of d k = Some v) fs \<Longrightarrow> set_fields fs d = d"
  unfolding set_fields_def
  by (induction fs) (auto simp: update_same)

lemma map_of_set_fields_other:
  "k \<notin> fst ` set fs \<Longrightarrow> map_of (set_fields fs d) k = map_of d k"
  unfolding set_fields_def
  by (induction fs arbitrary: d) (auto simp: update_conv')

lemma path_param_ann: "path_param ''ann@x.com''"
  by (simp add: path_param_def)


lemma path_param_cy: "path_param ''cy@x.com''"
  by (simp add: path_param_def)

lemma PUT_update_user_response:
  "fst (PUT_update_user email p s) =
     (if path_param email
      then (if modified_count (fst (update_one ''users'' [(''email_address'', VStr email)]
                (model_dump_exclude_unset p) s)) = 0
            then Response 404 (VDict [(''detail'', VStr ''User not found or no update needed'')])
            else internal_server_error)
      else not_found_response)"
  by (simp add: PUT_update_user_def update_user_def respond_def find_one_def Let_def
        split: prod.split)

lemma update_user_result:
  "fst (update_user email p s) =
     (if modified_count (fst (update_one ''users'' [(''email_address'', VStr email)]
            (model_dump_exclude_unset p) s)) = 0
      then Inl (HTTPException 404 ''User not found or no update needed'')
      else Inr (PyUpdateResult (fst (update_one ''users'' [(''email_address'', VStr email)]
            (model_dump_exclude_unset p) s))))"
  by (simp add: update_user_def find_one_def case_prod_beta)

lemma mongodb_update_user:
  "mongodb (snd (update_user email p s)) =
     (mongodb s)(''users'' := update_first (matches [(''email_address'', VStr email)])
        (set_fields (model_dump_exclude_unset p)) (mongodb s ''users''))"
  by (simp add: update_user_def update_one_def find_one_def Let_def split: option.split)

lemma mongodb_PUT_update_user:
  "mongodb (snd (PUT_update_user email p s)) =
     (if path_param email then mongodb (snd (update_user email p s)) else mongodb s)"
  by (simp add: PUT_update_user_def respond_def split: sum.split)

lemma bob_ray_valid: "User_validate bob_ray = Inr bob_ray_user"
  by (simp add: User_validate_Inr_iff bob_ray_def bob_ray_user_def str_field_def
        optional_str_field_def gender_field_def roles_field_def Gender_validate_def
        Role_validate_def)

lemma users_ann_stored:
  "mongodb ann_stored ''users'' = [(''_id'', VOid 1) # model_dump ann_lee_user]"
  by (simp add: ann_stored_def POST_create_user_run[OF ann_lee_valid] empty_app_def ObjectId_def)

lemma users_ann_aged:
  "mongodb ann_aged ''users'' = [(''_id'', VOid 1) # model_dump ann_lee_user @ [(''age'', VInt 30)]]"
  by (simp add: ann_aged_def mongodb_PUT_update_user path_param_ann mongodb_update_user
        users_ann_stored matches_def model_dump_def ann_lee_user_def age_30_def model_dump_exclude_unset_def
        set_fields_def)



text \<open>
  C10, as the code has it. Take a stored record whose email address the route matches and
  which no record stored before it shares (so that the lookup by the address selects it),
  and a patch every set field of which has the value the record already holds. The update
  route answers 404 with the detail \<open>User not found or no update needed\<close>: the record
  is matched and not modified (matched count 1, modified count 0), and every collection is
  as before.
\<close>

theorem update_with_stored_values_not_found:
  assumes "path_param email"
    and "mongodb s ''users'' = xs @ d # ys"
    and "map_of d ''email_address'' = Some (VStr email)"
    and "\<forall>x \<in> set xs. map_of x ''email_address'' \<noteq> Some (VStr email)"
    and "case other_names p of None \<Rightarrow> True
         | Some ns \<Rightarrow> map_of d ''other_names'' = Some (VList (map VStr ns))"
    and "case age p of None \<Rightarrow> True | Some a \<Rightarrow> map_of d ''age'' = Some (VInt a)"
  shows "fst (PUT_update_user email p s) =
           Response 404 (VDict [(''detail'', VStr ''User not found or no update needed'')])
       \<and> fst (update_user email p s) =
           Inl (HTTPException 404 ''User not found or no update needed'')
       \<and> mongodb (snd (PUT_update_user email p s)) = mongodb s
       \<and> fst (update_one ''users'' [(''email_address'', VStr email)]
            (model_dump_exclude_unset p) s) = \<lparr>matched_count = 1, modified_count = 0\<rparr>"
proof -
  have f: "find (matches [(''email_address'', VStr email)]) (mongodb s ''users'') = Some d"
    by (simp add: assms(2) find_by_email_middle[OF assms(4) assms(3)])
  from assms(5,6)
  have "list_all (\<lambda>(k, v). map_of d k = Some v) (model_dump_exclude_unset p)"
    by (cases "other_names p"; cases "age p") (simp_all add: model_dump_exclude_unset_def)
  then have sf: "set_fields (model_dump_exclude_unset p) d = d"
    by (rule set_fields_same)
  have r: "fst (update_one ''users'' [(''email_address'', VStr email)]
            (model_dump_exclude_unset p) s) = \<lparr>matched_count = 1, modified_count = 0\<rparr>"
    by (simp add: update_one_def Let_def f sf)
  have a: "fst (PUT_update_user email p s) =
           Response 404 (VDict [(''detail'', VStr ''User not found or no update needed'')])"
    by (simp add: PUT_update_user_response assms(1) r)
  have h: "fst (update_user email p s) =
           Inl (HTTPException 404 ''User not found or no update needed'')"
    by (simp add: update_user_result r)
  have u: "mongodb (snd (PUT_update_user email p s)) = mongodb s"
    by (simp add: mongodb_PUT_update_user mongodb_update_user
          update_first_same[where f = "set_fields (model_dump_exclude_unset p)", OF f sf])
  show ?thesis
    by (simp only: a h u r simp_thms)
qed

theorem update_with_stored_values_not_found_witness:
  "path_param ''ann@x.com''
   \<and> mongodb ann_aged ''users'' =
       [] @ ((''_id'', VOid 1) # model_dump ann_lee_user @ [(''age'', VInt 30)]) # []
   \<and> age age_30 = Some 30
   \<and> map_of ((''_id'', VOid 1) # model_dump ann_lee_user @ [(''age'', VInt 30)]) ''age'' =
       Some (VInt 30)
   \<and> fst (PUT_update_user ''ann@x.com'' age_30 ann_aged) =
       Response 404 (VDict [(''detail'', VStr ''User not found or no update needed'')])
   \<and> mongodb (snd (PUT_update_user ''ann@x.com'' age_30 ann_aged)) = mongodb ann_aged"
proof -
  let ?d = "(''_id'', VOid 1) # model_dump ann_lee_user @ [(''age'', VInt 30)]"
  have a: "mongodb ann_aged ''users'' = [] @ ?d # []"
    by (simp add: users_ann_aged)
  have b: "map_of ?d ''email_address'' = Some (VStr ''ann@x.com'')"
    by (simp add: model_dump_def ann_lee_user_def)
  have c: "\<forall>x \<in> set []. map_of x ''email_address'' \<noteq> Some (VStr ''ann@x.com'')"
    by simp
  have g: "map_of ?d ''age'' = Some (VInt 30)"
    by (simp add: model_dump_def)
  have d: "case other_names age_30 of None \<Rightarrow> True
           | Some ns \<Rightarrow> map_of ?d ''other_names'' = Some (VList (map VStr ns))"
    by (simp add: age_30_def)
  have e: "case age age_30 of None \<Rightarrow> True | Some a \<Rightarrow> map_of ?d ''age'' = Some (VInt a)"
    using g by (simp add: age_30_def)
  have h: "age age_30 = Some 30" by (simp add: age_30_def)
  from update_with_stored_values_not_found[OF path_param_ann a b c d e] path_param_ann a g h
  show ?thesis by simp
qed

text \<open>
  C10, as stated, fails: it speaks of every stored record, and the update reaches only the
  first record stored with the address. In a store with two records of one address that
  hold the ages 1 and 2, the second record already holds what the patch \<open>{"age": 2}\<close>
  sets; the update on its address modifies the first record (modified count 1) and the
  answer is not 404.
\<close>

theorem update_with_value_of_second_record_modifies:
  "map_of (mongodb two_ages ''users'' ! 1) ''email_address'' = Some (VStr ''ann@x.com'')
   \<and> map_of (mongodb two_ages ''users'' ! 1) ''age'' = Some (VInt 2)
   \<and> age age_2 = Some 2 \<and> other_names age_2 = None
   \<and> fst (update_one ''users'' [(''email_address'', VStr ''ann@x.com'')]
            (model_dump_exclude_unset age_2) two_ages) = \<lparr>matched_count = 1, modified_count = 1\<rparr>
   \<and> status_code (fst (PUT_update_user ''ann@x.com'' age_2 two_ages)) = 500
   \<and> map_of (mongodb (snd (PUT_update_user ''ann@x.com'' age_2 two_ages)) ''users'' ! 0) ''age'' =
       Some (VInt 2)"
proof -
  have r: "fst (update_one ''users'' [(''email_address'', VStr ''ann@x.com'')]
            (model_dump_exclude_unset age_2) two_ages) = \<lparr>matched_count = 1, modified_count = 1\<rparr>"
    by (simp add: update_one_def Let_def two_ages_def matches_def model_dump_def
          ann_lee_user_def age_2_def model_dump_exclude_unset_def set_fields_def)
  have u: "map_of (mongodb (snd (PUT_update_user ''ann@x.com'' age_2 two_ages)) ''users'' ! 0) ''age'' =
       Some (VInt 2)"
    by (simp add: mongodb_PUT_update_user path_param_ann mongodb_update_user two_ages_def
          matches_def model_dump_def ann_lee_user_def age_2_def model_dump_exclude_unset_def
          set_fields_def)
  have c: "status_code (fst (PUT_update_user ''ann@x.com'' age_2 two_ages)) = 500"
    by (simp add: PUT_update_user_response path_param_ann r internal_server_error_def)
  have s1: "map_of (mongodb two_ages ''users'' ! 1) ''email_address'' = Some (VStr ''ann@x.com'')"
    by (simp add: two_ages_def model_dump_def ann_lee_user_def)
  have s2: "map_of (mongodb two_ages ''users'' ! 1) ''age'' = Some (VInt 2)"
    by (simp add: two_ages_def model_dump_def)
  have p1: "age age_2 = Some 2" "other_names age_2 = None" by (simp_all add: age_2_def)
  show ?thesis
    by (simp only: r u c s1 s2 p1 simp_thms)
qed

text \<open>
  C5, at a patch that modifies a record. The claim is that the update route answers 200
  with the raw modification-count result when a record was modified, and 404 with the
  detail \<open>User not found or no update needed\<close> when none was. The 404 half holds (see
  \<open>PUT_update_user_response\<close>). After the scenario's create, setting the age to 30
  modifies the record and the handler returns the driver's result object; the route
  declares \<open>response_model=User\<close>, the result object is not a \<open>User\<close>, and the
  answer is 500.
\<close>

theorem modifying_update_is_server_error:
  "fst (update_user ''ann@x.com'' age_30 ann_stored) =
     Inr (PyUpdateResult \<lparr>matched_count = 1, modified_count = 1\<rparr>)
   \<and> fst (PUT_update_user ''ann@x.com'' age_30 ann_stored) =
       Response 500 (VStr ''Internal Server Error'')
   \<and> map_of (hd (mongodb (snd (PUT_update_user ''ann@x.com'' age_30 ann_stored)) ''users'')) ''age'' =
       Some (VInt 30)"
proof -
  have r: "fst (update_one ''users'' [(''email_address'', VStr ''ann@x.com'')]
            (model_dump_exclude_unset age_30) ann_stored) = \<lparr>matched_count = 1, modified_count = 1\<rparr>"
    by (simp add: update_one_def Let_def users_ann_stored matches_def model_dump_def
          ann_lee_user_def age_30_def model_dump_exclude_unset_def set_fields_def)
  have "map_of (hd (mongodb ann_aged ''users'')) ''age'' = Some (VInt 30)"
    by (simp add: users_ann_aged model_dump_def)
  then show ?thesis
    by (simp add: update_user_result PUT_update_user_response path_param_ann r
          internal_server_error_def ann_aged_def)
qed

lemma update_user_frame:
  assumes "k \<notin> fst ` set (model_dump_exclude_unset p)" and "i < length (mongodb s ''users'')"
  shows "map_of (mongodb (snd (update_user email p s)) ''users'' ! i) k =
         map_of (mongodb s ''users'' ! i) k"
  using nth_update_first[OF assms(2), of "matches [(''email_address'', VStr email)]"
          "set_fields (model_dump_exclude_unset p)"]
    map_of_set_fields_other[OF assms(1)]
  by (auto simp: mongodb_update_user)

text \<open>
  C6. Take a patch in which exactly one field \<open>f\<close> is set: \<open>other_names\<close> and not
  \<open>age\<close>, or \<open>age\<close> and not \<open>other_names\<close>. The update by an email address,
  successful or not, leaves every field other than \<open>f\<close> of every stored record as it
  was, the record found by the address included, and stores no record more or less.
\<close>

theorem update_leaves_other_fields:
  assumes "other_names p \<noteq> None \<and> age p = None \<and> f = ''other_names''
         \<or> other_names p = None \<and> age p \<noteq> None \<and> f = ''age''"
    and "k \<noteq> f"
    and "i < length (mongodb s ''users'')"
  shows "length (mongodb (snd (PUT_update_user email p s)) ''users'') = length (mongodb s ''users'')
       \<and> map_of (mongodb (snd (PUT_update_user email p s)) ''users'' ! i) k =
           map_of (mongodb s ''users'' ! i) k"
proof
  show "length (mongodb (snd (PUT_update_user email p s)) ''users'') = length (mongodb s ''users'')"
    by (simp add: mongodb_PUT_update_user mongodb_update_user length_update_first)
  from assms(1) have "fst ` set (model_dump_exclude_unset p) = {f}"
  proof
    assume "other_names p \<noteq> None \<and> age p = None \<and> f = ''other_names''"
    then show ?thesis by (cases "other_names p") (simp_all add: model_dump_exclude_unset_def)
  next
    assume "other_names p = None \<and> age p \<noteq> None \<and> f = ''age''"
    then show ?thesis by (cases "age p") (simp_all add: model_dump_exclude_unset_def)
  qed
  with assms(2) have "k \<notin> fst ` set (model_dump_exclude_unset p)" by simp
  from update_user_frame[OF this assms(3)]
  show "map_of (mongodb (snd (PUT_update_user email p s)) ''users'' ! i) k =
           map_of (mongodb s ''users'' ! i) k"
    by (simp add: mongodb_PUT_update_user)
qed

theorem update_leaves_other_fields_witness:
  "other_names age_30 = None \<and> age age_30 = Some 30 \<and> ''first_name'' \<noteq> ''age''
   \<and> 0 < length (mongodb ann_stored ''users'')
   \<and> map_of (mongodb (snd (PUT_update_user ''ann@x.com'' age_30 ann_stored)) ''users'' ! 0) ''first_name'' =
       Some (VStr ''Ann'')
   \<and> map_of (mongodb (snd (PUT_update_user ''ann@x.com'' age_30 ann_stored)) ''users'' ! 0) ''age'' =
       Some (VInt 30)
   \<and> map_of (mongodb ann_stored ''users'' ! 0) ''age'' = None"
proof -
  have a: "other_names age_30 \<noteq> None \<and> age age_30 = None \<and> ''age'' = ''other_names''
         \<or> other_names age_30 = None \<and> age age_30 \<noteq> None \<and> ''age'' = ''age''"
    by (simp add: age_30_def)
  have a': "other_names age_30 = None" "age age_30 = Some 30" by (simp_all add: age_30_def)
  have b: "''first_name'' \<noteq> ''age''" by simp
  have c: "0 < length (mongodb ann_stored ''users'')" by (simp add: users_ann_stored)
  have d: "map_of (mongodb ann_stored ''users'' ! 0) ''first_name'' = Some (VStr ''Ann'')"
    by (simp add: users_ann_stored model_dump_def ann_lee_user_def)
  have e: "map_of (mongodb (snd (PUT_update_user ''ann@x.com'' age_30 ann_stored)) ''users'' ! 0) ''age'' =
       Some (VInt 30)"
    using users_ann_aged by (simp add: ann_aged_def model_dump_def)
  have g: "map_of (mongodb ann_stored ''users'' ! 0) ''age'' = None"
    by (simp add: users_ann_stored model_dump_def)
  from update_leaves_other_fields[OF a b c, of "''ann@x.com''"] a' b c d e g show ?thesis by simp
qed

section \<open>Create, then get by email\<close>

lemma GET_read_user_found:
  assumes "path_param email"
    and "find (matches [(''email_address'', VStr email)]) (mongodb s ''users'') = Some d"
  shows "fst (read_user_by_email email s) = Inr (PyDict d)"
    and "fst (GET_read_user email s) = response_model_User (PyDict d)"
  by (simp_all add: GET_read_user_def read_user_by_email_def find_one_def respond_def assms)

lemma GET_read_user_not_found:
  assumes "path_param email"
    and "find (matches [(''email_address'', VStr email)]) (mongodb s ''users'') = None"
  shows "fst (GET_read_user email s) = Response 404 (VDict [(''detail'', VStr ''User Not Found'')])"
  by (simp add: GET_read_user_def read_user_by_email_def find_one_def respond_def assms)

lemma mongodb_GET_read_user: "mongodb (snd (GET_read_user email s)) = mongodb s"
  by (simp add: GET_read_user_def read_user_by_email_def find_one_def respond_def
        split: option.split)

lemma email_model_dump:
  "map_of (model_dump u) ''email_address'' = Some (VStr (email_address u))"
  by (simp add: model_dump_def)

lemma users_bob_stored:
  "mongodb bob_stored ''users'' = [(''_id'', VOid 1) # model_dump bob_ray_user]"
  by (simp add: bob_stored_def POST_create_user_run[OF bob_ray_valid] empty_app_def ObjectId_def)

text \<open>
  C1, as the code has it. Take a valid payload whose email address the read route matches
  (it is not empty and has no \<open>/\<close>) and which no stored record has. Creating and then
  getting by that email address answers 200 with the record's \<open>User\<close> fields, equal to
  the payload on every field the payload gives. The record found is the one stored by the
  create, with its identifier, and the handler returns it so; the route declares
  \<open>response_model=User\<close>, and the body of the response has no identifier.
\<close>

theorem create_then_get_by_email:
  assumes "User_validate request_body = Inr u"
    and "path_param (email_address u)"
    and "\<forall>d \<in> set (mongodb s ''users''). map_of d ''email_address'' \<noteq> Some (VStr (email_address u))"
  shows "fst (GET_read_user (email_address u) (snd (POST_create_user request_body s))) =
           Response 200 (VDict (model_dump u))
       \<and> fst (read_user_by_email (email_address u) (snd (POST_create_user request_body s))) =
           Inr (PyDict ((''_id'', VOid (ObjectId (mongodb s ''users''))) # model_dump u))
       \<and> (\<forall>k \<in> set User_fields. \<forall>v. map_of request_body k = Some v \<longrightarrow>
             body_field (fst (GET_read_user (email_address u)
               (snd (POST_create_user request_body s)))) k = Some v)
       \<and> body_field (fst (GET_read_user (email_address u)
               (snd (POST_create_user request_body s)))) ''_id'' = None"
proof -
  let ?s1 = "snd (POST_create_user request_body s)"
  let ?d = "(''_id'', VOid (ObjectId (mongodb s ''users''))) # model_dump u"
  from assms(3)
  have n: "find (matches [(''email_address'', VStr (email_address u))]) (mongodb s ''users'') = None"
    by (simp add: find_None_iff_all matches_single)
  have f: "find (matches [(''email_address'', VStr (email_address u))]) (mongodb ?s1 ''users'') = Some ?d"
    by (simp add: POST_create_user_run[OF assms(1)] find_append_last n matches_single
          email_model_dump)
  have r: "fst (GET_read_user (email_address u) ?s1) = Response 200 (VDict (model_dump u))"
    by (simp add: GET_read_user_found(2)[OF assms(2) f] User_validate_stored)
  have "\<forall>k \<in> set User_fields. \<forall>v. map_of request_body k = Some v \<longrightarrow>
          body_field (fst (GET_read_user (email_address u) ?s1)) k = Some v"
    by (simp add: r body_field_def model_dump_of_validated[OF assms(1)])
  moreover have "body_field (fst (GET_read_user (email_address u) ?s1)) ''_id'' = None"
    by (simp add: r body_field_def model_dump_def)
  ultimately show ?thesis using r GET_read_user_found(1)[OF assms(2) f] by (intro conjI)
qed

theorem create_then_get_by_email_witness:
  "User_validate ann_lee = Inr ann_lee_user
   \<and> path_param (email_address ann_lee_user)
   \<and> mongodb empty_app ''users'' = []
   \<and> fst (GET_read_user ''ann@x.com'' (snd (POST_create_user ann_lee empty_app))) =
       Response 200 (VDict (model_dump ann_lee_user))
   \<and> fst (read_user_by_email ''ann@x.com'' (snd (POST_create_user ann_lee empty_app))) =
       Inr (PyDict ((''_id'', VOid 1) # model_dump ann_lee_user))"
proof -
  have h: "\<forall>d \<in> set (mongodb empty_app ''users'').
         map_of d ''email_address'' \<noteq> Some (VStr (email_address ann_lee_user))"
    by (simp add: empty_app_def)
  have e: "email_address ann_lee_user = ''ann@x.com''" by (simp add: ann_lee_user_def)
  have q: "path_param (email_address ann_lee_user)" by (simp add: e path_param_ann)
  have n: "mongodb empty_app ''users'' = []" by (simp add: empty_app_def)
  from create_then_get_by_email[OF ann_lee_valid q h] ann_lee_valid n path_param_ann show ?thesis
    by (simp add: e ObjectId_def)
qed

text \<open>
  C1, as stated, fails: when a record with the same email address is already stored (here
  the second payload), creating the scenario's payload and getting by its email address
  answers with the older record, and the body has no identifier.
\<close>

theorem create_then_get_returns_older_record:
  "User_validate ann_lee = Inr ann_lee_user
   \<and> status_code (fst (GET_read_user ''ann@x.com'' (snd (POST_create_user ann_lee bob_stored)))) = 200
   \<and> body_field (fst (GET_read_user ''ann@x.com'' (snd (POST_create_user ann_lee bob_stored))))
        ''first_name'' = Some (VStr ''Bob'')
   \<and> body_field (fst (GET_read_user ''ann@x.com'' (snd (POST_create_user ann_lee bob_stored))))
        ''_id'' = None"
proof -
  have f: "find (matches [(''email_address'', VStr ''ann@x.com'')])
             (mongodb (snd (POST_create_user ann_lee bob_stored)) ''users'') =
           Some ((''_id'', VOid 1) # model_dump bob_ray_user)"
    by (simp add: POST_create_user_run[OF ann_lee_valid] users_bob_stored matches_def
          model_dump_def bob_ray_user_def)
  have "fst (GET_read_user ''ann@x.com'' (snd (POST_create_user ann_lee bob_stored))) =
          Response 200 (VDict (model_dump bob_ray_user))"
    by (simp add: GET_read_user_found(2)[OF path_param_ann f] User_validate_stored)
  then show ?thesis
    by (simp add: ann_lee_valid body_field_def model_dump_def bob_ray_user_def)
qed

section \<open>Delete\<close>

lemma delete_first_no_match: "find P ds = None \<Longrightarrow> delete_first P ds = ds"
  by (induction ds) (auto split: if_splits)

lemma DELETE_delete_user_response:
  "fst (DELETE_delete_user email s) =
     (if path_param email
      then (case find (matches [(''email_address'', VStr email)]) (mongodb s ''users'') of
              None \<Rightarrow> Response 404 (VDict [(''detail'', VStr ''User Not Found'')])
            | Some d \<Rightarrow> Response 200 (VDict [(''message'', VStr ''User deleted Successfully'')]))
      else not_found_response)"
  by (simp add: DELETE_delete_user_def delete_user_by_email_def delete_one_def respond_def Let_def
        split: option.split)

lemma mongodb_DELETE_delete_user:
  "mongodb (snd (DELETE_delete_user email s)) =
     (if path_param email
      then (mongodb s)(''users'' := delete_first (matches [(''email_address'', VStr email)])
             (mongodb s ''users''))
      else mongodb s)"
  by (simp add: DELETE_delete_user_def delete_user_by_email_def delete_one_def respond_def Let_def
        split: option.split)

lemma cy_poe_valid: "User_validate cy_poe = Inr cy_poe_user"
  by (simp add: User_validate_Inr_iff cy_poe_def cy_poe_user_def str_field_def
        optional_str_field_def gender_field_def roles_field_def Gender_validate_def
        Role_validate_def)

lemma users_ann_cy_stored:
  "mongodb ann_cy_stored ''users'' =
     [(''_id'', VOid 1) # model_dump ann_lee_user, (''_id'', VOid 2) # model_dump cy_poe_user]"
  by (simp add: ann_cy_stored_def create_all_def POST_create_user_run[OF ann_lee_valid]
        POST_create_user_run[OF cy_poe_valid] empty_app_def ObjectId_def oid_of_def)

lemma users_two_anns:
  "mongodb two_anns ''users'' =
     [(''_id'', VOid 1) # model_dump ann_lee_user, (''_id'', VOid 2) # model_dump ann_lee_user]"
  by (simp add: two_anns_def POST_create_user_run[OF ann_lee_valid] users_ann_stored ObjectId_def
        oid_of_def)

text \<open>
  C8, as the code has it. Take a stored record whose email address the routes match (it is
  not empty and has no \<open>/\<close>) and which no other stored record has. Deleting by the
  address answers 200 with \<open>{"message": "User deleted Successfully"}\<close> and removes that
  record and nothing else; getting by the same address then answers 404 with the detail
  \<open>User Not Found\<close>, and so does deleting by it again.
\<close>

theorem delete_by_unique_email:
  assumes "path_param email"
    and "mongodb s ''users'' = xs @ d # ys"
    and "map_of d ''email_address'' = Some (VStr email)"
    and "\<forall>d' \<in> set (xs @ ys). map_of d' ''email_address'' \<noteq> Some (VStr email)"
  shows "fst (DELETE_delete_user email s) =
           Response 200 (VDict [(''message'', VStr ''User deleted Successfully'')])
       \<and> mongodb (snd (DELETE_delete_user email s)) = (mongodb s)(''users'' := xs @ ys)
       \<and> fst (GET_read_user email (snd (DELETE_delete_user email s))) =
           Response 404 (VDict [(''detail'', VStr ''User Not Found'')])
       \<and> fst (DELETE_delete_user email (snd (GET_read_user email (snd (DELETE_delete_user email s))))) =
           Response 404 (VDict [(''detail'', VStr ''User Not Found'')])"
proof -
  from assms(4) have nx: "\<forall>x \<in> set xs. map_of x ''email_address'' \<noteq> Some (VStr email)"
    by simp
  have f: "find (matches [(''email_address'', VStr email)]) (mongodb s ''users'') = Some d"
    by (simp add: assms(2) find_by_email_middle[OF nx assms(3)])
  have m: "mongodb (snd (DELETE_delete_user email s)) = (mongodb s)(''users'' := xs @ ys)"
    by (simp add: mongodb_DELETE_delete_user assms(1,2)
          delete_first_by_email_middle[OF nx assms(3)])
  from assms(4)
  have n: "find (matches [(''email_address'', VStr email)])
             (mongodb (snd (DELETE_delete_user email s)) ''users'') = None"
    by (simp add: m find_None_iff_all matches_single)
  have a1: "fst (DELETE_delete_user email s) =
           Response 200 (VDict [(''message'', VStr ''User deleted Successfully'')])"
    by (simp add: DELETE_delete_user_response assms(1) f)
  have a3: "fst (GET_read_user email (snd (DELETE_delete_user email s))) =
           Response 404 (VDict [(''detail'', VStr ''User Not Found'')])"
    by (simp add: GET_read_user_not_found[OF assms(1)] n)
  have a4: "fst (DELETE_delete_user email
                  (snd (GET_read_user email (snd (DELETE_delete_user email s))))) =
           Response 404 (VDict [(''detail'', VStr ''User Not Found'')])"
    by (simp add: DELETE_delete_user_response assms(1) mongodb_GET_read_user n)
  show ?thesis
    by (simp only: a1 m a3 a4 simp_thms)
qed

theorem delete_by_unique_email_witness:
  "path_param ''cy@x.com''
   \<and> mongodb ann_cy_stored ''users'' =
     [(''_id'', VOid 1) # model_dump ann_lee_user] @ ((''_id'', VOid 2) # model_dump cy_poe_user) # []
   \<and> map_of ((''_id'', VOid 2) # model_dump cy_poe_user) ''email_address'' = Some (VStr ''cy@x.com'')
   \<and> fst (DELETE_delete_user ''cy@x.com'' ann_cy_stored) =
           Response 200 (VDict [(''message'', VStr ''User deleted Successfully'')])
   \<and> mongodb (snd (DELETE_delete_user ''cy@x.com'' ann_cy_stored)) ''users'' =
           [(''_id'', VOid 1) # model_dump ann_lee_user]
   \<and> fst (GET_read_user ''cy@x.com'' (snd (DELETE_delete_user ''cy@x.com'' ann_cy_stored))) =
           Response 404 (VDict [(''detail'', VStr ''User Not Found'')])
   \<and> fst (DELETE_delete_user ''cy@x.com''
             (snd (GET_read_user ''cy@x.com'' (snd (DELETE_delete_user ''cy@x.com'' ann_cy_stored))))) =
           Response 404 (VDict [(''detail'', VStr ''User Not Found'')])"
proof -
  have a: "mongodb ann_cy_stored ''users'' =
     [(''_id'', VOid 1) # model_dump ann_lee_user] @ ((''_id'', VOid 2) # model_dump cy_poe_user) # []"
    by (simp add: users_ann_cy_stored)
  have b: "map_of ((''_id'', VOid 2) # model_dump cy_poe_user) ''email_address'' = Some (VStr ''cy@x.com'')"
    by (simp add: model_dump_def cy_poe_user_def)
  have c: "\<forall>d' \<in> set ([(''_id'', VOid 1) # model_dump ann_lee_user] @ []).
             map_of d' ''email_address'' \<noteq> Some (VStr ''cy@x.com'')"
    by (simp add: model_dump_def ann_lee_user_def)
  from delete_by_unique_email[OF path_param_cy a b c] a b path_param_cy show ?thesis by simp
qed

text \<open>
  C8, as stated, fails: there is no deduplication, and \<open>delete_one\<close> removes one record.
  After the scenario's payload was created twice, deleting by its email address answers
  200, and then getting by it answers 200 (the second record), and deleting by it again
  answers 200.
\<close>

theorem delete_leaves_record_with_same_email:
  "fst (DELETE_delete_user ''ann@x.com'' two_anns) =
     Response 200 (VDict [(''message'', VStr ''User deleted Successfully'')])
   \<and> status_code (fst (GET_read_user ''ann@x.com'' (snd (DELETE_delete_user ''ann@x.com'' two_anns)))) = 200
   \<and> fst (DELETE_delete_user ''ann@x.com''
           (snd (GET_read_user ''ann@x.com'' (snd (DELETE_delete_user ''ann@x.com'' two_anns))))) =
       Response 200 (VDict [(''message'', VStr ''User deleted Successfully'')])"
proof -
  let ?s1 = "snd (DELETE_delete_user ''ann@x.com'' two_anns)"
  have u1: "mongodb ?s1 ''users'' = [(''_id'', VOid 2) # model_dump ann_lee_user]"
    by (simp add: mongodb_DELETE_delete_user path_param_ann users_two_anns matches_def
          model_dump_def ann_lee_user_def)
  have f: "find (matches [(''email_address'', VStr ''ann@x.com'')]) (mongodb ?s1 ''users'') =
             Some ((''_id'', VOid 2) # model_dump ann_lee_user)"
    by (simp add: u1 matches_def model_dump_def ann_lee_user_def)
  have "fst (DELETE_delete_user ''ann@x.com'' two_anns) =
     Response 200 (VDict [(''message'', VStr ''User deleted Successfully'')])"
    by (simp add: DELETE_delete_user_response path_param_ann users_two_anns matches_def
          model_dump_def ann_lee_user_def)
  moreover have "status_code (fst (GET_read_user ''ann@x.com'' ?s1)) = 200"
    by (simp add: GET_read_user_found(2)[OF path_param_ann f] User_validate_stored)
  moreover have "fst (DELETE_delete_user ''ann@x.com'' (snd (GET_read_user ''ann@x.com'' ?s1))) =
       Response 200 (VDict [(''message'', VStr ''User deleted Successfully'')])"
    by (simp add: DELETE_delete_user_response path_param_ann mongodb_GET_read_user f)
  ultimately show ?thesis by (intro conjI)
qed

section \<open>List\<close>

lemma Users_validate_append:
  "Users_validate (ds @ [d]) =
     (case Users_validate ds of
        None \<Rightarrow> None
      | Some us \<Rightarrow> (case User_validate d of Inl errs \<Rightarrow> None | Inr u \<Rightarrow> Some (us @ [u])))"
  by (induction ds) (simp_all split: sum.split option.split)

lemma users_create_all:
  assumes "map User_validate request_bodies = map Inr us"
    and "Users_validate (mongodb s ''users'') = Some us0"
  shows "Users_validate (mongodb (create_all request_bodies s) ''users'') = Some (us0 @ us)
       \<and> length (mongodb (create_all request_bodies s) ''users'') =
           length (mongodb s ''users'') + length request_bodies"
  using assms
proof (induction request_bodies arbitrary: us s us0)
  case Nil
  then show ?case by (simp add: create_all_def)
next
  case (Cons b bs)
  from Cons.prems(1) obtain u us' where us: "us = u # us'" and b: "User_validate b = Inr u"
    and bs: "map User_validate bs = map Inr us'"
    by (cases us) simp_all
  let ?s1 = "snd (POST_create_user b s)"
  have "Users_validate (mongodb ?s1 ''users'') = Some (us0 @ [u])"
    by (simp add: POST_create_user_run[OF b] Users_validate_append Cons.prems(2)
          User_validate_stored)
  from Cons.IH[OF bs this]
  show ?case by (simp add: us create_all_def POST_create_user_run[OF b])
qed

lemma GET_read_all_users_response:
  "fst (GET_read_all_users s) = response_model_List_User (PyList (mongodb s ''users''))"
  by (simp add: GET_read_all_users_def read_users_def find_to_list_def respond_def)

text \<open>
  C9. On a service whose \<open>users\<close> collection is empty the list route answers 200 with
  the empty sequence; after creating N valid payloads one after the other (with distinct
  email addresses or not) it answers 200 with N records, which are the N payloads'
  records in some order, and N documents are stored.
\<close>

theorem list_after_creates:
  assumes "mongodb s ''users'' = []"
    and "map User_validate request_bodies = map Inr us"
  shows "fst (GET_read_all_users s) = Response 200 (VList [])
       \<and> (\<exists>rs. fst (GET_read_all_users (create_all request_bodies s)) = Response 200 (VList rs)
             \<and> length rs = length request_bodies
             \<and> mset rs = mset (map (\<lambda>u. VDict (model_dump u)) us))
       \<and> length (mongodb (create_all request_bodies s) ''users'') = length request_bodies"
proof -
  have v0: "Users_validate (mongodb s ''users'') = Some []" by (simp add: assms(1))
  from users_create_all[OF assms(2) v0]
  have v: "Users_validate (mongodb (create_all request_bodies s) ''users'') = Some us"
    and l: "length (mongodb (create_all request_bodies s) ''users'') = length request_bodies"
    by (simp_all add: assms(1))
  from assms(2) have lu: "length us = length request_bodies"
    using map_eq_imp_length_eq[OF assms(2)] by simp
  have "fst (GET_read_all_users (create_all request_bodies s)) =
          Response 200 (VList (map (\<lambda>u. VDict (model_dump u)) us))"
    by (simp add: GET_read_all_users_response v)
  with lu have "\<exists>rs. fst (GET_read_all_users (create_all request_bodies s)) = Response 200 (VList rs)
             \<and> length rs = length request_bodies
             \<and> mset rs = mset (map (\<lambda>u. VDict (model_dump u)) us)"
    by simp
  moreover have "fst (GET_read_all_users s) = Response 200 (VList [])"
    by (simp add: GET_read_all_users_response assms(1))
  ultimately show ?thesis using l by (intro conjI)
qed

theorem list_after_creates_witness:
  "mongodb empty_app ''users'' = []
   \<and> map User_validate [ann_lee, cy_poe] = map Inr [ann_lee_user, cy_poe_user]
   \<and> fst (GET_read_all_users empty_app) = Response 200 (VList [])
   \<and> (\<exists>rs. fst (GET_read_all_users (create_all [ann_lee, cy_poe] empty_app)) = Response 200 (VList rs)
         \<and> length rs = 2)"
proof -
  have a: "mongodb empty_app ''users'' = []" by (simp add: empty_app_def)
  have b: "map User_validate [ann_lee, cy_poe] = map Inr [ann_lee_user, cy_poe_user]"
    by (simp add: ann_lee_valid cy_poe_valid)
  note t = list_after_creates[OF a b]
  from t[THEN conjunct2, THEN conjunct1]
  obtain rs where "fst (GET_read_all_users (create_all [ann_lee, cy_poe] empty_app)) = Response 200 (VList rs)"
    "length rs = length [ann_lee, cy_poe]"
    by (elim exE conjE)
  with a b t[THEN conjunct1] show ?thesis by simp
qed

end
